theory Spec2Isabelle
  imports Complex_Main
begin

section \<open>The Spotify client of function-calling.py\<close>

text \<open>
  The client of \<^verbatim>\<open>src/function-calling.py\<close> (class \<^verbatim>\<open>SpotifyClient\<close>) keeps a cached
  bearer token, fetches it from the token endpoint, and issues authenticated GET requests
  with one retry after a 401 or 403 answer. The network, the clock and the process
  environment are outside the program: they are modelled as scripts that the program
  consumes, and every HTTP call the program issues is appended to a trace.
\<close>

subsection \<open>Values\<close>

text \<open>
  What \<^verbatim>\<open>resp.json()\<close> returns: Python's \<^verbatim>\<open>None\<close>, \<^verbatim>\<open>bool\<close>, \<^verbatim>\<open>int\<close>, \<^verbatim>\<open>float\<close>,
  \<^verbatim>\<open>str\<close>, \<^verbatim>\<open>list\<close> and \<^verbatim>\<open>dict\<close> with string keys. A dict is an association list
  whose lookup takes the first binding of a key. Floats are idealised as reals (no
  rounding, no NaN); characters are code points below 256.
\<close>

datatype json =
    JNull
  | JBool bool
  | JInt int
  | JFloat real
  | JStr string
  | JList "json list"
  | JObj "(string \<times> json) list"

text \<open>
  The exceptions that can leave the modelled methods. \<open>Transport\<close> stands for whatever
  \<^verbatim>\<open>requests.get\<close> or \<^verbatim>\<open>requests.post\<close> raise themselves (connection failure, timeout),
  with an opaque tag; \<open>HTTPError\<close> is what \<^verbatim>\<open>raise_for_status\<close> raises and carries the
  status; \<open>JSONDecodeError\<close> is what \<^verbatim>\<open>resp.json()\<close> raises on a body that is not JSON.
\<close>

datatype error =
    RuntimeError string
  | SpotifyAPIError string
  | Transport string
  | HTTPError int
  | JSONDecodeError
  | KeyError string
  | TypeError
  | ValueError
  | AttributeError
  | AssertionError

text \<open>
  A \<^verbatim>\<open>requests.Response\<close>: its status, its body text, and what \<^verbatim>\<open>.json()\<close> gives
  (\<open>None\<close> when it raises). How the library parses the text is not part of the program.
\<close>

record response =
  status_code :: int
  resp_text :: string
  json_body :: "json option"

datatype http_result = Raises string | Reply response

text \<open>
  A value of \<^verbatim>\<open>_expires_at\<close>: a number of seconds, or \<^verbatim>\<open>float("inf")\<close>.
\<close>

datatype ftime = Secs real | PosInf

datatype event =
    Post string string
  | Get string "(string \<times> json) list" string

text \<open>
  The world. \<open>post_script\<close> and \<open>get_script\<close> hold the outcomes of the calls of
  \<^verbatim>\<open>requests.post\<close> and \<^verbatim>\<open>requests.get\<close> still to come (index 0 is the next one),
  \<open>clock\<close> the readings of \<^verbatim>\<open>time.time()\<close> still to come, and \<open>trace\<close> the calls
  issued so far, oldest first. An event \<open>Post url cred\<close> records the credential string
  \<^verbatim>\<open>client_id:client_secret\<close> before its base64 encoding; \<open>Get url params auth\<close> records
  the query parameters and the \<^verbatim>\<open>Authorization\<close> header.
\<close>

record world =
  post_script :: "nat \<Rightarrow> http_result"
  get_script :: "nat \<Rightarrow> http_result"
  clock :: "nat \<Rightarrow> real"
  trace :: "event list"

text \<open>
  Two builtins of Python are parameters of the model: \<open>py_repr\<close> is \<^verbatim>\<open>str()\<close> on a
  float, a list or a dict, and \<open>int_of_str\<close> is \<^verbatim>\<open>int()\<close> on a \<^verbatim>\<open>str\<close> (\<open>None\<close> when it
  raises \<^verbatim>\<open>ValueError\<close>).
\<close>

record pylib =
  py_repr :: "json \<Rightarrow> string"
  int_of_str :: "string \<Rightarrow> int option"

record client =
  client_id :: "string option"
  client_secret :: "string option"
  market :: "string option"
  token_override :: "string option"
  access_token :: json
  expires_at :: ftime

type_synonym 'a outcome = "(error + 'a) \<times> client \<times> world"

subsection \<open>Python's builtins\<close>

text \<open>Truth value of an \<^verbatim>\<open>Optional[str]\<close> read from the environment, and of any value.\<close>

definition truthy_str :: "string option \<Rightarrow> bool" where
  "truthy_str v = (case v of None \<Rightarrow> False | Some s \<Rightarrow> s \<noteq> [])"

fun truthy :: "json \<Rightarrow> bool" where
  "truthy JNull = False"
| "truthy (JBool b) = b"
| "truthy (JInt n) = (n \<noteq> 0)"
| "truthy (JFloat r) = (r \<noteq> 0)"
| "truthy (JStr s) = (s \<noteq> [])"
| "truthy (JList xs) = (xs \<noteq> [])"
| "truthy (JObj kvs) = (kvs \<noteq> [])"

text \<open>Decimal notation of an integer, as an f-string prints it.\<close>

function str_nat :: "nat \<Rightarrow> string" where
  "str_nat n = (if n < 10 then [''0123456789'' ! n]
                else str_nat (n div 10) @ [''0123456789'' ! (n mod 10)])"
  by pat_completeness auto
termination
  by (relation "measure id") auto

declare str_nat.simps [simp del]

definition str_int :: "int \<Rightarrow> string" where
  "str_int i = (if i < 0 then CHR ''-'' # str_nat (nat (- i)) else str_nat (nat i))"

text \<open>\<^verbatim>\<open>f"{v}"\<close>: the value as an f-string interpolates it.\<close>

fun fmt :: "pylib \<Rightarrow> json \<Rightarrow> string" where
  "fmt L (JStr s) = s"
| "fmt L (JInt n) = str_int n"
| "fmt L (JBool b) = (if b then ''True'' else ''False'')"
| "fmt L JNull = ''None''"
| "fmt L v = py_repr L v"

definition fmt_opt :: "string option \<Rightarrow> string" where
  "fmt_opt v = (case v of None \<Rightarrow> ''None'' | Some s \<Rightarrow> s)"

text \<open>\<^verbatim>\<open>int(v)\<close>; a float is truncated towards zero.\<close>

fun py_int :: "pylib \<Rightarrow> json \<Rightarrow> error + int" where
  "py_int L (JInt n) = Inr n"
| "py_int L (JBool b) = Inr (if b then 1 else 0)"
| "py_int L (JFloat r) = Inr (if 0 \<le> r then \<lfloor>r\<rfloor> else \<lceil>r\<rceil>)"
| "py_int L (JStr s) = (case int_of_str L s of None \<Rightarrow> Inl ValueError | Some n \<Rightarrow> Inr n)"
| "py_int L v = Inl TypeError"

text \<open>\<^verbatim>\<open>v[k]\<close> with a string key, and \<^verbatim>\<open>v.get(k, d)\<close>.\<close>

fun subscript :: "json \<Rightarrow> string \<Rightarrow> error + json" where
  "subscript (JObj kvs) k = (case map_of kvs k of None \<Rightarrow> Inl (KeyError k) | Some v \<Rightarrow> Inr v)"
| "subscript v k = Inl TypeError"

fun dict_get :: "json \<Rightarrow> string \<Rightarrow> json \<Rightarrow> error + json" where
  "dict_get (JObj kvs) k d = Inr (case map_of kvs k of None \<Rightarrow> d | Some v \<Rightarrow> v)"
| "dict_get v k d = Inl AttributeError"

text \<open>
  \<^verbatim>\<open>str.strip()\<close>: the characters below 256 for which \<^verbatim>\<open>str.isspace\<close> holds are removed
  from both ends.
\<close>

definition is_space :: "char \<Rightarrow> bool" where
  "is_space ch = (of_char ch \<in> {9, 10, 11, 12, 13, 28, 29, 30, 31, 32, 133, 160 :: nat})"

definition strip :: "string \<Rightarrow> string" where
  "strip s = rev (dropWhile is_space (rev (dropWhile is_space s)))"

subsection \<open>The outside world\<close>

definition requests_post :: "world \<Rightarrow> string \<Rightarrow> string \<Rightarrow> http_result \<times> world" where
  "requests_post w url cred =
     (post_script w 0,
      w\<lparr>post_script := (\<lambda>n. post_script w (Suc n)), trace := trace w @ [Post url cred]\<rparr>)"

definition requests_get ::
  "world \<Rightarrow> string \<Rightarrow> (string \<times> json) list \<Rightarrow> string \<Rightarrow> http_result \<times> world" where
  "requests_get w url params auth =
     (get_script w 0,
      w\<lparr>get_script := (\<lambda>n. get_script w (Suc n)), trace := trace w @ [Get url params auth]\<rparr>)"

definition time_time :: "world \<Rightarrow> real \<times> world" where
  "time_time w = (clock w 0, w\<lparr>clock := (\<lambda>n. clock w (Suc n))\<rparr>)"

text \<open>\<^verbatim>\<open>resp.raise_for_status()\<close> raises for the statuses from 400 to 599.\<close>

definition raise_for_status :: "response \<Rightarrow> error + unit" where
  "raise_for_status resp =
     (if 400 \<le> status_code resp \<and> status_code resp < 600
      then Inl (HTTPError (status_code resp)) else Inr ())"

subsection \<open>SpotifyClient\<close>

text \<open>\<^verbatim>\<open>__init__\<close> (lines 42 to 52); \<open>env\<close> is \<^verbatim>\<open>os.getenv\<close>.\<close>

definition init :: "(string \<rightharpoonup> string) \<Rightarrow> error + client" where
  "init env =
     (let cid = env ''SPOTIFY_CLIENT_ID'';
          sec = env ''SPOTIFY_CLIENT_SECRET'';
          mkt = env ''SPOTIFY_MARKET'';
          tok = env ''SPOTIFY_ACCESS_TOKEN''
      in if \<not> truthy_str tok \<and> (\<not> truthy_str cid \<or> \<not> truthy_str sec)
         then Inl (RuntimeError ''Missing SPOTIFY_CLIENT_ID or SPOTIFY_CLIENT_SECRET in environment.'')
         else Inr \<lparr>client_id = cid, client_secret = sec, market = mkt, token_override = tok,
                   access_token = JNull, expires_at = Secs 0\<rparr>)"

text \<open>
  The test \<^verbatim>\<open>if self._token_override\<close>: the static token when there is a non-empty one.
\<close>

definition static_token :: "client \<Rightarrow> string option" where
  "static_token c =
     (case token_override c of None \<Rightarrow> None | Some s \<Rightarrow> if s = [] then None else Some s)"

definition token_url :: string where
  "token_url = ''https://accounts.spotify.com/api/token''"

definition basic_credentials :: "client \<Rightarrow> string" where
  "basic_credentials c = fmt_opt (client_id c) @ '':'' @ fmt_opt (client_secret c)"

text \<open>
  \<^verbatim>\<open>_refresh_token\<close> (lines 54 to 76). The token is stored (line 74) before the clock is
  read and the lifetime converted (line 76), so a failing conversion leaves the new token
  with the old expiry.
\<close>

definition refresh_token :: "pylib \<Rightarrow> client \<Rightarrow> world \<Rightarrow> unit outcome" where
  "refresh_token L c w =
     (case static_token c of
        Some s \<Rightarrow> (Inr (), c\<lparr>access_token := JStr s, expires_at := PosInf\<rparr>, w)
      | None \<Rightarrow>
         (let (r, w1) = requests_post w token_url (basic_credentials c) in
          case r of
            Raises x \<Rightarrow> (Inl (Transport x), c, w1)
          | Reply resp \<Rightarrow>
             (case raise_for_status resp of
                Inl e \<Rightarrow> (Inl e, c, w1)
              | Inr _ \<Rightarrow>
                 (case json_body resp of
                    None \<Rightarrow> (Inl JSONDecodeError, c, w1)
                  | Some payload \<Rightarrow>
                     (case subscript payload ''access_token'' of
                        Inl e \<Rightarrow> (Inl e, c, w1)
                      | Inr tok \<Rightarrow>
                         (let c1 = c\<lparr>access_token := tok\<rparr>;
                              (now, w2) = time_time w1
                          in case dict_get payload ''expires_in'' (JInt 3600) of
                               Inl e \<Rightarrow> (Inl e, c1, w2)
                             | Inr v \<Rightarrow>
                                (case py_int L v of
                                   Inl e \<Rightarrow> (Inl e, c1, w2)
                                 | Inr n \<Rightarrow>
                                    (Inr (),
                                     c1\<lparr>expires_at := Secs (now + of_int n - 60)\<rparr>,
                                     w2))))))))"

text \<open>\<^verbatim>\<open>time.time() >= self._expires_at\<close>.\<close>

fun reached :: "real \<Rightarrow> ftime \<Rightarrow> bool" where
  "reached now (Secs e) = (e \<le> now)"
| "reached now PosInf = False"

text \<open>
  Lines 84 and 85 of \<^verbatim>\<open>_get_token\<close>: the assertion, then the cached token.
\<close>

definition assert_token :: "unit outcome \<Rightarrow> json outcome" where
  "assert_token r =
     (case r of
        (Inl e, c, w) \<Rightarrow> (Inl e, c, w)
      | (Inr _, c, w) \<Rightarrow>
         if access_token c = JNull then (Inl AssertionError, c, w)
         else (Inr (access_token c), c, w))"

text \<open>
  \<^verbatim>\<open>_get_token\<close> (lines 78 to 85). The \<^verbatim>\<open>or\<close> of line 82 reads the clock only when a
  token is cached.
\<close>

definition get_token :: "pylib \<Rightarrow> client \<Rightarrow> world \<Rightarrow> json outcome" where
  "get_token L c w =
     (case static_token c of
        Some s \<Rightarrow> (Inr (JStr s), c, w)
      | None \<Rightarrow>
         if \<not> truthy (access_token c) then assert_token (refresh_token L c w)
         else
           (let (now, w1) = time_time w in
            if reached now (expires_at c) then assert_token (refresh_token L c w1)
            else assert_token (Inr (), c, w1)))"

text \<open>
  \<^verbatim>\<open>_extract_error_message\<close> (lines 106 to 137) in two parts: \<open>error_detail\<close> is the
  message found by lines 108 to 122, \<open>extract_error_message\<close> wraps it by status.
\<close>

definition error_detail :: "response \<Rightarrow> json" where
  "error_detail resp =
     (let payload = (case json_body resp of None \<Rightarrow> JObj [] | Some p \<Rightarrow> p);
          message =
            (case payload of
               JObj kvs \<Rightarrow>
                 (case map_of kvs ''error'' of
                    None \<Rightarrow> JNull
                  | Some (JObj ekvs) \<Rightarrow>
                      (case map_of ekvs ''message'' of None \<Rightarrow> JNull | Some m \<Rightarrow> m)
                  | Some (JStr s) \<Rightarrow> JStr s
                  | Some _ \<Rightarrow> JNull)
             | _ \<Rightarrow> JNull)
      in if \<not> truthy message
         then JStr (let t = strip (resp_text resp)
                    in if t = [] then ''Unknown Spotify API error'' else t)
         else message)"

definition extract_error_message :: "pylib \<Rightarrow> response \<Rightarrow> string" where
  "extract_error_message L resp =
     (let status = status_code resp;
          message = fmt L (error_detail resp)
      in if status = 403 then
           ''Spotify API returned 403 Forbidden: '' @ message @ ''. ''
           @ ''For development apps, ensure the requested resource is available in your market ''
           @ ''and consider using an Authorization Code token (set SPOTIFY_ACCESS_TOKEN).''
         else if status = 404 then
           ''Spotify API returned 404 Not Found: '' @ message @ ''. ''
           @ ''This usually means one of the supplied IDs is invalid or unavailable in the current market.''
         else ''Spotify API error '' @ str_int status @ '': '' @ message)"

text \<open>Lines 99 to 104 of \<^verbatim>\<open>_get\<close>: the status check and the parsed body.\<close>

definition finish :: "pylib \<Rightarrow> response \<Rightarrow> error + json" where
  "finish L resp =
     (case raise_for_status resp of
        Inl _ \<Rightarrow> Inl (SpotifyAPIError (extract_error_message L resp))
      | Inr _ \<Rightarrow> (case json_body resp of None \<Rightarrow> Inl JSONDecodeError | Some j \<Rightarrow> Inr j))"

definition bearer :: "pylib \<Rightarrow> json \<Rightarrow> string" where
  "bearer L tok = ''Bearer '' @ fmt L tok"

definition params_or_empty :: "(string \<times> json) list option \<Rightarrow> (string \<times> json) list" where
  "params_or_empty params = (case params of None \<Rightarrow> [] | Some ps \<Rightarrow> ps)"

text \<open>\<^verbatim>\<open>_get\<close> (lines 87 to 104).\<close>

definition get :: "pylib \<Rightarrow> client \<Rightarrow> world \<Rightarrow> string \<Rightarrow> (string \<times> json) list option \<Rightarrow> json outcome" where
  "get L c w url params =
     (case get_token L c w of
        (Inl e, c1, w1) \<Rightarrow> (Inl e, c1, w1)
      | (Inr tok, c1, w1) \<Rightarrow>
         (let (r, w2) = requests_get w1 url (params_or_empty params) (bearer L tok) in
          case r of
            Raises x \<Rightarrow> (Inl (Transport x), c1, w2)
          | Reply resp \<Rightarrow>
             if (status_code resp = 401 \<or> status_code resp = 403) \<and> \<not> truthy_str (token_override c1)
             then
               (case refresh_token L c1 w2 of
                  (Inl e, c2, w3) \<Rightarrow> (Inl e, c2, w3)
                | (Inr _, c2, w3) \<Rightarrow>
                   (case get_token L c2 w3 of
                      (Inl e, c3, w4) \<Rightarrow> (Inl e, c3, w4)
                    | (Inr tok2, c3, w4) \<Rightarrow>
                       (let (r2, w5) = requests_get w4 url (params_or_empty params) (bearer L tok2) in
                        case r2 of
                          Raises x \<Rightarrow> (Inl (Transport x), c3, w5)
                        | Reply resp2 \<Rightarrow> (finish L resp2, c3, w5))))
             else (finish L resp, c1, w2)))"

text \<open>Sequencing of steps that may raise.\<close>

definition then_do :: "error + 'a \<Rightarrow> ('a \<Rightarrow> error + 'b) \<Rightarrow> error + 'b" where
  "then_do r f = (case r of Inl e \<Rightarrow> Inl e | Inr v \<Rightarrow> f v)"

text \<open>
  \<^verbatim>\<open>for x in v\<close>: the elements of a list, the keys of a dict, the characters of a string;
  nothing else can be iterated.
\<close>

fun py_iter :: "json \<Rightarrow> error + json list" where
  "py_iter (JList xs) = Inr xs"
| "py_iter (JObj kvs) = Inr (map JStr (remdups (map fst kvs)))"
| "py_iter (JStr s) = Inr (map (\<lambda>ch. JStr [ch]) s)"
| "py_iter v = Inl TypeError"

text \<open>
  Line 155: the generator \<^verbatim>\<open>a.get("name", "")\<close> is run to its end first, then
  \<^verbatim>\<open>", ".join\<close> demands that every item is a string.
\<close>

fun artist_names :: "json list \<Rightarrow> error + json list" where
  "artist_names [] = Inr []"
| "artist_names (a # as) =
     then_do (dict_get a ''name'' (JStr [])) (\<lambda>n.
     then_do (artist_names as) (\<lambda>ns. Inr (n # ns)))"

fun join :: "string \<Rightarrow> json list \<Rightarrow> error + string" where
  "join sep [] = Inr []"
| "join sep [JStr s] = Inr s"
| "join sep (JStr s # v # vs) = then_do (join sep (v # vs)) (\<lambda>r. Inr (s @ sep @ r))"
| "join sep (v # vs) = Inl TypeError"

text \<open>Lines 152 to 159: the entry built for one item \<open>t\<close>.\<close>

definition track_entry :: "json \<Rightarrow> error + json" where
  "track_entry t =
     then_do (dict_get t ''id'' JNull) (\<lambda>tid.
     then_do (dict_get t ''name'' JNull) (\<lambda>nm.
     then_do (dict_get t ''artists'' (JList [])) (\<lambda>arts.
     then_do (py_iter arts) (\<lambda>as.
     then_do (artist_names as) (\<lambda>ns.
     then_do (join '', '' ns) (\<lambda>artists.
     then_do (dict_get t ''album'' (JObj [])) (\<lambda>al.
     then_do (dict_get al ''name'' JNull) (\<lambda>album.
     then_do (dict_get t ''external_urls'' (JObj [])) (\<lambda>eu.
     then_do (dict_get eu ''spotify'' JNull) (\<lambda>u.
     then_do (dict_get t ''preview_url'' JNull) (\<lambda>p.
     Inr (JObj [(''id'', tid), (''name'', nm), (''artists'', JStr artists),
                (''album'', album), (''url'', u), (''preview_url'', p)]))))))))))))"

fun track_entries :: "json list \<Rightarrow> error + json list" where
  "track_entries [] = Inr []"
| "track_entries (t # ts) =
     then_do (track_entry t) (\<lambda>e.
     then_do (track_entries ts) (\<lambda>es. Inr (e # es)))"

text \<open>Lines 148 to 161 of \<^verbatim>\<open>search_tracks\<close>.\<close>

definition tracks_of :: "json \<Rightarrow> error + json" where
  "tracks_of result =
     then_do (dict_get result ''tracks'' (JObj [])) (\<lambda>tr.
     then_do (dict_get tr ''items'' (JList [])) (\<lambda>items.
     then_do (py_iter items) (\<lambda>ts.
     then_do (track_entries ts) (\<lambda>tracks. Inr (JList tracks)))))"

text \<open>Lines 140 to 146: the query parameters.\<close>

definition search_params :: "client \<Rightarrow> string \<Rightarrow> int \<Rightarrow> (string \<times> json) list" where
  "search_params c query limit =
     [(''q'', JStr query), (''type'', JStr ''track''), (''limit'', JInt (max 1 (min limit 20)))]
     @ (case market c of None \<Rightarrow> [] | Some m \<Rightarrow> if m = [] then [] else [(''market'', JStr m)])"

definition search_url :: string where
  "search_url = ''https://api.spotify.com/v1/search''"

text \<open>\<^verbatim>\<open>search_tracks\<close> (lines 139 to 161).\<close>

definition search_tracks :: "pylib \<Rightarrow> client \<Rightarrow> world \<Rightarrow> string \<Rightarrow> int \<Rightarrow> json outcome" where
  "search_tracks L c w query limit =
     (case get L c w search_url (Some (search_params c query limit)) of
        (Inl e, c1, w1) \<Rightarrow> (Inl e, c1, w1)
      | (Inr result, c1, w1) \<Rightarrow> (tracks_of result, c1, w1))"

subsection \<open>Sequences of calls\<close>

text \<open>
  A caller may invoke the methods of one client any number of times; an exception leaves
  the client as it was when raised, and the next call goes on from there.
\<close>

datatype call =
    RefreshToken
  | GetToken
  | GetUrl string "(string \<times> json) list option"
  | SearchTracks string int

fun run_call :: "pylib \<Rightarrow> client \<Rightarrow> world \<Rightarrow> call \<Rightarrow> client \<times> world" where
  "run_call L c w RefreshToken = snd (refresh_token L c w)"
| "run_call L c w GetToken = snd (get_token L c w)"
| "run_call L c w (GetUrl url params) = snd (get L c w url params)"
| "run_call L c w (SearchTracks query limit) = snd (search_tracks L c w query limit)"

fun run :: "pylib \<Rightarrow> client \<Rightarrow> world \<Rightarrow> call list \<Rightarrow> client \<times> world" where
  "run L c w [] = (c, w)"
| "run L c w (x # xs) = (case run_call L c w x of (c1, w1) \<Rightarrow> run L c1 w1 xs)"

subsection \<open>Reading a trace\<close>

fun is_post :: "event \<Rightarrow> bool" where
  "is_post (Post url cred) = True"
| "is_post (Get url params auth) = False"


text \<open>The calls issued between an earlier world and a later one.\<close>

definition new_events :: "world \<Rightarrow> world \<Rightarrow> event list" where
  "new_events w w' = drop (length (trace w)) (trace w')"

text \<open>The calls that issue a resource request.\<close>

fun issues_get :: "call \<Rightarrow> bool" where
  "issues_get (GetUrl url params) = True"
| "issues_get (SearchTracks query limit) = True"
| "issues_get RefreshToken = False"
| "issues_get GetToken = False"

subsection \<open>Sample inputs\<close>

text \<open>
  Concrete clients, replies and worlds at which the statements below are instantiated:
  a client with client credentials and a cached token that expires at second 1000, a
  client with a static token, a token endpoint that grants a token for 3600 seconds, a
  resource endpoint that answers 403 first and 200 afterwards, and a clock that reads 500.
\<close>

definition demo_lib :: pylib where
  "demo_lib = \<lparr>py_repr = (\<lambda>v. ''<repr>''), int_of_str = (\<lambda>s. None)\<rparr>"

definition demo_client :: client where
  "demo_client = \<lparr>client_id = Some ''id'', client_secret = Some ''secret'', market = None,
                   token_override = None, access_token = JStr ''old'', expires_at = Secs 1000\<rparr>"

definition demo_static :: client where
  "demo_static = \<lparr>client_id = None, client_secret = None, market = None,
                   token_override = Some ''fixed'', access_token = JNull, expires_at = Secs 0\<rparr>"

definition demo_token_reply :: response where
  "demo_token_reply = \<lparr>status_code = 200, resp_text = [],
     json_body = Some (JObj [(''access_token'', JStr ''new''), (''expires_in'', JInt 3600)])\<rparr>"

definition demo_403 :: response where
  "demo_403 = \<lparr>status_code = 403, resp_text = ''denied'', json_body = None\<rparr>"

definition demo_401 :: response where
  "demo_401 = \<lparr>status_code = 401, resp_text = ''expired'', json_body = None\<rparr>"

definition demo_200 :: response where
  "demo_200 = \<lparr>status_code = 200, resp_text = [],
     json_body = Some (JObj [(''tracks'', JObj [(''items'', JList [])])])\<rparr>"

definition demo_world :: world where
  "demo_world = \<lparr>post_script = (\<lambda>n. Reply demo_token_reply),
                  get_script = (\<lambda>n. if n = 0 then Reply demo_403 else Reply demo_200),
                  clock = (\<lambda>n. 500),
                  trace = []\<rparr>"

definition demo_url :: string where
  "demo_url = ''https://api.spotify.com/v1/audio-features''"

definition demo_calls :: "call list" where
  "demo_calls = [GetToken, GetUrl demo_url None, RefreshToken, SearchTracks ''jazz'' 50]"

section \<open>Properties\<close>

subsection \<open>Effects of the token methods\<close>



lemma static_token_None: "(static_token c = None) = (\<not> truthy_str (token_override c))"
  by (simp add: static_token_def truthy_str_def split: option.splits)

lemma static_token_upd [simp]:
  "static_token (c\<lparr>access_token := t\<rparr>) = static_token c"
  "static_token (c\<lparr>expires_at := x\<rparr>) = static_token c"
  by (simp_all add: static_token_def)

lemma basic_credentials_upd [simp]:
  "basic_credentials (c\<lparr>access_token := t\<rparr>) = basic_credentials c"
  "basic_credentials (c\<lparr>expires_at := x\<rparr>) = basic_credentials c"
  by (simp_all add: basic_credentials_def)

lemma new_events_append: "trace w' = trace w @ evs \<Longrightarrow> new_events w w' = evs"
  by (simp add: new_events_def)

lemma refresh_token_static:
  "static_token c = Some s \<Longrightarrow>
   refresh_token L c w = (Inr (), c\<lparr>access_token := JStr s, expires_at := PosInf\<rparr>, w)"
  by (simp add: refresh_token_def)

lemma refresh_token_frame:
  assumes "refresh_token L c w = (r, c', w')"
  shows "static_token c' = static_token c \<and> basic_credentials c' = basic_credentials c
       \<and> market c' = market c \<and> get_script w' = get_script w"
  using assms
  by (auto simp: refresh_token_def requests_post_def time_time_def Let_def
           split: option.splits http_result.splits sum.splits prod.splits)

lemma refresh_token_trace:
  assumes "static_token c = None" and "refresh_token L c w = (r, c', w')"
  shows "trace w' = trace w @ [Post token_url (basic_credentials c)]
       \<and> post_script w' = (\<lambda>n. post_script w (Suc n))"
  using assms
  by (auto simp: refresh_token_def requests_post_def time_time_def Let_def
           split: option.splits http_result.splits sum.splits prod.splits)

lemma assert_token_frame:
  assumes "assert_token (r0, c0, w0) = (r, c', w')"
  shows "c' = c0 \<and> w' = w0"
  using assms by (auto simp: assert_token_def split: sum.splits if_splits)

lemma get_token_static:
  "static_token c = Some s \<Longrightarrow> get_token L c w = (Inr (JStr s), c, w)"
  by (simp add: get_token_def)

lemma get_token_frame:
  assumes "get_token L c w = (r, c', w')"
  shows "static_token c' = static_token c \<and> basic_credentials c' = basic_credentials c
       \<and> market c' = market c \<and> get_script w' = get_script w"
proof (cases "static_token c")
  case (Some s)
  with assms show ?thesis by (simp add: get_token_static)
next
  case None
  show ?thesis
  proof (cases "truthy (access_token c)")
    case False
    obtain r0 c0 w0 where R: "refresh_token L c w = (r0, c0, w0)"
      by (cases "refresh_token L c w") auto
    with assms None False have "assert_token (r0, c0, w0) = (r, c', w')"
      by (simp add: get_token_def)
    from assert_token_frame [OF this] refresh_token_frame [OF R]
    show ?thesis by simp
  next
    case True
    let ?w1 = "w\<lparr>clock := (\<lambda>n. clock w (Suc n))\<rparr>"
    show ?thesis
    proof (cases "reached (clock w 0) (expires_at c)")
      case exp: True
      obtain r0 c0 w0 where R: "refresh_token L c ?w1 = (r0, c0, w0)"
        by (cases "refresh_token L c ?w1") auto
      with assms None True exp have "assert_token (r0, c0, w0) = (r, c', w')"
        by (simp add: get_token_def time_time_def)
      from assert_token_frame [OF this] refresh_token_frame [OF R]
      show ?thesis by simp
    next
      case nexp: False
      with assms None True have "assert_token (Inr (), c, ?w1) = (r, c', w')"
        by (simp add: get_token_def time_time_def)
      from assert_token_frame [OF this] show ?thesis by simp
    qed
  qed
qed

text \<open>
  \<open>get_token\<close> of a client without a static token issues no token POST when the cached
  token is non-empty and unexpired, and exactly one otherwise.
\<close>

lemma get_token_trace:
  assumes "static_token c = None" and "get_token L c w = (r, c', w')"
  shows "\<exists>i\<le>1. trace w' = trace w @ replicate i (Post token_url (basic_credentials c))
            \<and> post_script w' = (\<lambda>n. post_script w (n + i))
            \<and> (truthy (access_token c) \<and> \<not> reached (clock w 0) (expires_at c) \<longrightarrow>
                 i = 0 \<and> c' = c \<and> r = Inr (access_token c))
            \<and> (\<not> truthy (access_token c) \<or> reached (clock w 0) (expires_at c) \<longrightarrow> i = 1)"
proof (cases "truthy (access_token c)")
  case False
  obtain r0 c0 w0 where R: "refresh_token L c w = (r0, c0, w0)"
    by (cases "refresh_token L c w") auto
  with assms False have "assert_token (r0, c0, w0) = (r, c', w')"
    by (simp add: get_token_def)
  from assert_token_frame [OF this] refresh_token_trace [OF assms(1) R] False
  show ?thesis by (intro exI [of _ 1]) simp
next
  case True
  let ?w1 = "w\<lparr>clock := (\<lambda>n. clock w (Suc n))\<rparr>"
  show ?thesis
  proof (cases "reached (clock w 0) (expires_at c)")
    case exp: True
    obtain r0 c0 w0 where R: "refresh_token L c ?w1 = (r0, c0, w0)"
      by (cases "refresh_token L c ?w1") auto
    with assms True exp have "assert_token (r0, c0, w0) = (r, c', w')"
      by (simp add: get_token_def time_time_def)
    from assert_token_frame [OF this] refresh_token_trace [OF assms(1) R] exp
    show ?thesis by (intro exI [of _ 1]) simp
  next
    case nexp: False
    from True have nn: "access_token c \<noteq> JNull" by auto
    with assms True nexp have "r = Inr (access_token c) \<and> c' = c \<and> w' = ?w1"
      by (auto simp add: get_token_def time_time_def assert_token_def)
    with True nexp show ?thesis by (intro exI [of _ 0]) simp
  qed
qed

subsection \<open>Where errors come from\<close>

lemma py_int_not_api: "py_int L v \<noteq> Inl (SpotifyAPIError m)"
  by (cases v) (auto split: option.splits)

lemma subscript_not_api: "subscript v k \<noteq> Inl (SpotifyAPIError m)"
  by (cases v) (auto split: option.splits)

lemma dict_get_not_api: "dict_get v k d \<noteq> Inl (SpotifyAPIError m)"
  by (cases v) auto

lemma refresh_token_not_api:
  "refresh_token L c w = (r, c', w') \<Longrightarrow> r \<noteq> Inl (SpotifyAPIError m)"
  using py_int_not_api subscript_not_api dict_get_not_api
  by (auto simp: refresh_token_def requests_post_def time_time_def Let_def raise_for_status_def
           split: option.splits http_result.splits sum.splits prod.splits if_splits)

lemma get_token_not_api:
  "get_token L c w = (r, c', w') \<Longrightarrow> r \<noteq> Inl (SpotifyAPIError m)"
  by (auto simp: get_token_def assert_token_def time_time_def
           split: option.splits sum.splits prod.splits if_splits
           dest: refresh_token_not_api)





lemma finish_api:
  "finish L resp = Inl (SpotifyAPIError m) \<Longrightarrow>
   400 \<le> status_code resp \<and> status_code resp < 600 \<and> m = extract_error_message L resp"
  by (auto simp: finish_def raise_for_status_def split: if_splits option.splits)

subsection \<open>Effects of the authenticated GET\<close>

text \<open>
  With a static token \<open>get\<close> is one GET and nothing else.
\<close>

lemma get_static:
  assumes "static_token c = Some s"
  shows "get L c w url ps =
     ((case get_script w 0 of Raises x \<Rightarrow> Inl (Transport x) | Reply resp \<Rightarrow> finish L resp),
      c,
      w\<lparr>get_script := (\<lambda>n. get_script w (Suc n)),
        trace := trace w @ [Get url (params_or_empty ps) (''Bearer '' @ s)]\<rparr>)"
proof -
  from assms have "truthy_str (token_override c)"
    using static_token_None [of c] by simp
  with assms show ?thesis
    by (simp add: get_def get_token_static requests_get_def bearer_def split: http_result.splits)
qed

text \<open>
  Without a static token the calls of \<open>get\<close> are: \<open>i\<close> token POSTs, \<open>g\<close> GETs, \<open>j\<close> token
  POSTs and \<open>h\<close> GETs, in this order, with the bounds and the results below.
\<close>

lemma get_cases:
  assumes ns: "static_token c = None" and G: "get L c w url ps = (r, c', w')"
  shows "\<exists>i g j h a1 a2. i \<le> 1 \<and> g \<le> 1 \<and> j \<le> 2 \<and> h \<le> 1
      \<and> trace w' = trace w @ replicate i (Post token_url (basic_credentials c))
           @ replicate g (Get url (params_or_empty ps) a1)
           @ replicate j (Post token_url (basic_credentials c))
           @ replicate h (Get url (params_or_empty ps) a2)
      \<and> (truthy (access_token c) \<and> \<not> reached (clock w 0) (expires_at c) \<longrightarrow>
            i = 0 \<and> a1 = bearer L (access_token c))
      \<and> (\<not> truthy (access_token c) \<or> reached (clock w 0) (expires_at c) \<longrightarrow> i = 1)
      \<and> (\<forall>t. fst (get_token L c w) = Inr t \<longrightarrow> g = 1 \<and> a1 = bearer L t)
      \<and> (g = 0 \<longrightarrow> j = 0 \<and> h = 0 \<and> (\<exists>e. fst (get_token L c w) = Inl e \<and> r = Inl e))
      \<and> (h = 1 \<longrightarrow> g = 1 \<and> 1 \<le> j
            \<and> r = (case get_script w 1 of Raises x \<Rightarrow> Inl (Transport x)
                                       | Reply resp \<Rightarrow> finish L resp)
            \<and> (\<exists>resp. get_script w 0 = Reply resp
                   \<and> (status_code resp = 401 \<or> status_code resp = 403)))
      \<and> (g = 1 \<and> j = 0 \<longrightarrow> h = 0
            \<and> r = (case get_script w 0 of Raises x \<Rightarrow> Inl (Transport x)
                                       | Reply resp \<Rightarrow> finish L resp))
      \<and> (\<forall>m. r = Inl (SpotifyAPIError m) \<longrightarrow>
            (\<exists>k resp. k < 2 \<and> get_script w k = Reply resp \<and> 400 \<le> status_code resp
                  \<and> status_code resp < 600 \<and> m = extract_error_message L resp))"
proof -
  let ?p = "Post token_url (basic_credentials c)"
  let ?P = "params_or_empty ps"
  let ?valid = "truthy (access_token c) \<and> \<not> reached (clock w 0) (expires_at c)"
  obtain r1 c1 w1 where T1: "get_token L c w = (r1, c1, w1)"
    by (cases "get_token L c w") auto
  from get_token_trace [OF ns T1] obtain i where i: "i \<le> 1"
    "trace w1 = trace w @ replicate i ?p"
    "?valid \<longrightarrow> i = 0 \<and> r1 = Inr (access_token c)"
    "\<not> ?valid \<longrightarrow> i = 1"
    by blast
  from get_token_frame [OF T1] ns have f1: "static_token c1 = None"
    "basic_credentials c1 = basic_credentials c" "get_script w1 = get_script w" by simp_all
  show ?thesis
  proof (cases r1)
    case (Inl e)
    with G T1 have "w' = w1" "r = Inl e" by (simp_all add: get_def)
    moreover from Inl have "e \<noteq> SpotifyAPIError m" for m
      using get_token_not_api [OF T1] by simp
    ultimately show ?thesis using i T1 Inl
      by (intro exI [of _ i] exI [of _ 0]) auto
  next
    case (Inr tok)
    let ?a1 = "bearer L tok"
    let ?w2 = "w1\<lparr>get_script := (\<lambda>n. get_script w1 (Suc n)), trace := trace w1 @ [Get url ?P ?a1]\<rparr>"
    have t2: "trace ?w2 = trace w @ replicate i ?p @ replicate 1 (Get url ?P ?a1)"
      using i by simp
    from i Inr have a1: "?valid \<longrightarrow> ?a1 = bearer L (access_token c)" by auto
    let ?done = "case get_script w 0 of Raises x \<Rightarrow> Inl (Transport x)
                   | Reply resp \<Rightarrow> finish L resp"
    have api0: "?done = Inl (SpotifyAPIError m) \<Longrightarrow>
        \<exists>k resp. k < 2 \<and> get_script w k = Reply resp \<and> 400 \<le> status_code resp
                  \<and> status_code resp < 600 \<and> m = extract_error_message L resp" for m
      by (intro exI [of _ 0]) (auto split: http_result.splits dest: finish_api)
    show ?thesis
    proof (cases "\<exists>resp. get_script w 0 = Reply resp
                    \<and> (status_code resp = 401 \<or> status_code resp = 403)")
      case False
      with G T1 Inr f1 have "w' = ?w2" "r = ?done"
        by (auto simp add: get_def requests_get_def split: http_result.splits)
      with t2 i a1 T1 Inr api0 show ?thesis
        by (intro exI [of _ i] exI [of _ 1] exI [of _ 0] exI [of _ 0] exI [of _ ?a1]) simp
    next
      case True
      then obtain resp where Reply: "get_script w1 0 = Reply resp"
        "status_code resp = 401 \<or> status_code resp = 403" using f1 by auto
      from f1 have nt: "\<not> truthy_str (token_override c1)"
        using static_token_None [of c1] by simp
      obtain r2 c2 w3 where R: "refresh_token L c1 ?w2 = (r2, c2, w3)"
        by (cases "refresh_token L c1 ?w2") auto
      from refresh_token_trace [OF f1(1) R] f1 have t3: "trace w3 = trace ?w2 @ [?p]"
        by simp
      from refresh_token_frame [OF R] f1 have f2: "static_token c2 = None"
        "basic_credentials c2 = basic_credentials c"
        "get_script w3 = (\<lambda>n. get_script w (Suc n))" by simp_all
      show ?thesis
      proof (cases r2)
        case e2: (Inl e)
        with G T1 Inr Reply nt R have "w' = w3" "r = Inl e"
          by (simp_all add: get_def requests_get_def)
        moreover from e2 have "e \<noteq> SpotifyAPIError m" for m
          using refresh_token_not_api [OF R] by simp
        ultimately show ?thesis using t2 t3 i a1 T1 Inr
          by (intro exI [of _ i] exI [of _ 1] exI [of _ 1] exI [of _ 0] exI [of _ ?a1]) simp
      next
        case ok2: (Inr u)
        obtain r3 c3 w4 where T2: "get_token L c2 w3 = (r3, c3, w4)"
          by (cases "get_token L c2 w3") auto
        from get_token_trace [OF f2(1) T2] f2 obtain k where k: "k \<le> 1"
          "trace w4 = trace w3 @ replicate k ?p" by auto
        have t4: "trace w4 = trace w @ replicate i ?p @ replicate 1 (Get url ?P ?a1)
                    @ replicate (Suc k) ?p"
          using k t3 t2 by (simp add: replicate_app_Cons_same)
        from get_token_frame [OF T2] f2 have f3: "get_script w4 0 = get_script w 1"
          by simp
        show ?thesis
        proof (cases r3)
          case e3: (Inl e)
          with G T1 Inr Reply nt R ok2 T2 have "w' = w4" "r = Inl e"
            by (simp_all add: get_def requests_get_def)
          moreover from e3 have "e \<noteq> SpotifyAPIError m" for m
            using get_token_not_api [OF T2] by simp
          ultimately show ?thesis using t4 i k a1 T1 Inr
            by (intro exI [of _ i] exI [of _ 1] exI [of _ "Suc k"] exI [of _ 0] exI [of _ ?a1])
               simp
        next
          case ok3: (Inr tok2)
          let ?a2 = "bearer L tok2"
          let ?w5 = "w4\<lparr>get_script := (\<lambda>n. get_script w4 (Suc n)),
                        trace := trace w4 @ [Get url ?P ?a2]\<rparr>"
          let ?done2 = "case get_script w 1 of Raises x \<Rightarrow> Inl (Transport x)
                          | Reply resp \<Rightarrow> finish L resp"
          from G T1 Inr Reply nt R ok2 T2 ok3 f3 have "w' = ?w5" "r = ?done2"
            by (simp_all add: get_def requests_get_def split: http_result.splits)
          moreover have "?done2 = Inl (SpotifyAPIError m) \<Longrightarrow>
             \<exists>k resp. k < 2 \<and> get_script w k = Reply resp \<and> 400 \<le> status_code resp
                  \<and> status_code resp < 600 \<and> m = extract_error_message L resp" for m
            by (intro exI [of _ 1]) (auto split: http_result.splits dest: finish_api)
          ultimately show ?thesis using t4 i k a1 T1 Inr True
            by (intro exI [of _ i] exI [of _ 1] exI [of _ "Suc k"] exI [of _ 1]
                      exI [of _ ?a1] exI [of _ ?a2]) simp
        qed
      qed
    qed
  qed
qed




subsection \<open>Sample runs\<close>



subsection \<open>Static clients over sequences of calls\<close>

lemma run_call_static:
  assumes "static_token c = Some s" and "run_call L c w x = (c1, w1)"
  shows "static_token c1 = Some s \<and> post_script w1 = post_script w
       \<and> (\<exists>evs. trace w1 = trace w @ evs \<and> filter is_post evs = []
                \<and> length evs = (if issues_get x then 1 else 0))"
proof (cases x)
  case RefreshToken
  with assms show ?thesis by (auto simp: refresh_token_static)
next
  case GetToken
  with assms show ?thesis by (auto simp: get_token_static)
next
  case (GetUrl url ps)
  with assms show ?thesis by (auto simp: get_static)
next
  case (SearchTracks query limit)
  with assms show ?thesis
    by (auto simp: search_tracks_def get_static split: sum.splits)
qed

lemma run_static:
  assumes "static_token c = Some s" and "run L c w calls = (c', w')"
  shows "static_token c' = Some s \<and> post_script w' = post_script w
       \<and> (\<exists>evs. trace w' = trace w @ evs \<and> filter is_post evs = []
                \<and> length evs = length (filter issues_get calls))"
  using assms
proof (induction calls arbitrary: c w)
  case Nil
  then show ?case by simp
next
  case (Cons x xs)
  obtain c1 w1 where S: "run_call L c w x = (c1, w1)"
    by (cases "run_call L c w x") auto
  from run_call_static [OF Cons.prems(1) S] obtain e1 where
    s1: "static_token c1 = Some s" "post_script w1 = post_script w"
    and e1: "trace w1 = trace w @ e1" "filter is_post e1 = []"
        "length e1 = (if issues_get x then 1 else 0)"
    by blast
  from Cons.prems(2) S have R: "run L c1 w1 xs = (c', w')" by simp
  from Cons.IH [OF s1(1) R] obtain e2 where
    s2: "static_token c' = Some s" "post_script w' = post_script w1"
    and e2: "trace w' = trace w1 @ e2" "filter is_post e2 = []"
        "length e2 = length (filter issues_get xs)"
    by blast
  from e1 e2 have "trace w' = trace w @ (e1 @ e2)" "filter is_post (e1 @ e2) = []"
    "length (e1 @ e2) = length (filter issues_get (x # xs))" by simp_all
  with s1 s2 show ?case by metis
qed


section \<open>The claims\<close>




text \<open>
  Claim C2. \<open>init\<close> fails with the \<^verbatim>\<open>RuntimeError\<close> of line 48 whenever the static token is
  absent and the client id or the client secret is absent, and succeeds when the static
  token is present or both the client id and the client secret are. A variable that is
  unset or set to the empty string is absent: that is the test of line 47.
\<close>

theorem init_credentials:
  "((env ''SPOTIFY_ACCESS_TOKEN'' = None \<or> env ''SPOTIFY_ACCESS_TOKEN'' = Some [])
      \<and> ((env ''SPOTIFY_CLIENT_ID'' = None \<or> env ''SPOTIFY_CLIENT_ID'' = Some [])
           \<or> (env ''SPOTIFY_CLIENT_SECRET'' = None \<or> env ''SPOTIFY_CLIENT_SECRET'' = Some []))
     \<longrightarrow> init env
          = Inl (RuntimeError ''Missing SPOTIFY_CLIENT_ID or SPOTIFY_CLIENT_SECRET in environment.''))
   \<and> ((\<exists>t. env ''SPOTIFY_ACCESS_TOKEN'' = Some t \<and> t \<noteq> [])
        \<or> ((\<exists>i. env ''SPOTIFY_CLIENT_ID'' = Some i \<and> i \<noteq> [])
            \<and> (\<exists>s. env ''SPOTIFY_CLIENT_SECRET'' = Some s \<and> s \<noteq> []))
     \<longrightarrow> init env
          = Inr \<lparr>client_id = env ''SPOTIFY_CLIENT_ID'',
                 client_secret = env ''SPOTIFY_CLIENT_SECRET'',
                 market = env ''SPOTIFY_MARKET'',
                 token_override = env ''SPOTIFY_ACCESS_TOKEN'',
                 access_token = JNull, expires_at = Secs 0\<rparr>)"
  by (auto simp: init_def truthy_str_def Let_def split: option.splits)

theorem init_credentials_witness:
  "init Map.empty
     = Inl (RuntimeError ''Missing SPOTIFY_CLIENT_ID or SPOTIFY_CLIENT_SECRET in environment.'')
   \<and> init [''SPOTIFY_CLIENT_ID'' \<mapsto> ''id'']
     = Inl (RuntimeError ''Missing SPOTIFY_CLIENT_ID or SPOTIFY_CLIENT_SECRET in environment.'')
   \<and> (\<exists>c. init [''SPOTIFY_ACCESS_TOKEN'' \<mapsto> ''fixed''] = Inr c)
   \<and> (\<exists>c. init [''SPOTIFY_CLIENT_ID'' \<mapsto> ''id'', ''SPOTIFY_CLIENT_SECRET'' \<mapsto> ''secret''] = Inr c)"
  using init_credentials [of Map.empty]
    init_credentials [of "[''SPOTIFY_CLIENT_ID'' \<mapsto> ''id'']"]
    init_credentials [of "[''SPOTIFY_ACCESS_TOKEN'' \<mapsto> ''fixed'']"]
    init_credentials [of "[''SPOTIFY_CLIENT_ID'' \<mapsto> ''id'', ''SPOTIFY_CLIENT_SECRET'' \<mapsto> ''secret'']"]
  by simp

text \<open>
  Claim C3. A client with a static token never calls the token endpoint: after any
  sequence of calls of \<open>refresh_token\<close>, \<open>get_token\<close>, \<open>get\<close> and \<open>search_tracks\<close>, under any
  script of the network and any readings of the clock, the trace has no new token POST and
  the script of the token endpoint is untouched; the calls issued are one GET for each
  \<open>get\<close> or \<open>search_tracks\<close>, so nothing is retried, and \<open>get_token\<close> still returns the
  static token.
\<close>

theorem static_client_never_posts:
  assumes "static_token c = Some s" and "run L c w calls = (c', w')"
  shows "filter is_post (new_events w w') = []
       \<and> post_script w' = post_script w
       \<and> length (new_events w w') = length (filter issues_get calls)
       \<and> get_token L c' w' = (Inr (JStr s), c', w')"
proof -
  from run_static [OF assms] obtain evs where
    s: "static_token c' = Some s" "post_script w' = post_script w"
    and e: "trace w' = trace w @ evs" "filter is_post evs = []"
        "length evs = length (filter issues_get calls)"
    by blast
  from new_events_append [OF e(1)] e s get_token_static [OF s(1)]
  show ?thesis by simp
qed

theorem static_client_never_posts_witness:
  "static_token demo_static = Some ''fixed''
   \<and> filter is_post (new_events demo_world (snd (run demo_lib demo_static demo_world demo_calls))) = []
   \<and> length (new_events demo_world (snd (run demo_lib demo_static demo_world demo_calls))) = 2"
proof -
  let ?X = "run demo_lib demo_static demo_world demo_calls"
  have h1: "static_token demo_static = Some ''fixed''"
    by (simp add: demo_static_def static_token_def)
  have h2: "?X = (fst ?X, snd ?X)" by simp
  from static_client_never_posts [OF h1 h2] h1 show ?thesis
    by (simp add: demo_calls_def)
qed



text \<open>
  Claim C5. For a client without a static token: when no token is cached, or the clock has
  reached the cached expiry, the calls of \<open>get\<close> begin with exactly one token POST, and the
  resource GET follows it at once if the token was obtained; when the cached token is
  non-empty and unexpired, the first call of \<open>get\<close> is the resource GET, with that token.
\<close>

theorem get_refreshes_expired_token:
  assumes "static_token c = None" and "get L c w url ps = (r, c', w')"
  shows "(\<not> truthy (access_token c) \<or> reached (clock w 0) (expires_at c) \<longrightarrow>
            takeWhile is_post (new_events w w') = [Post token_url (basic_credentials c)]
          \<and> (\<forall>t. fst (get_token L c w) = Inr t \<longrightarrow>
               (\<exists>rest. new_events w w' =
                  Post token_url (basic_credentials c)
                  # Get url (params_or_empty ps) (bearer L t) # rest)))
       \<and> (truthy (access_token c) \<and> \<not> reached (clock w 0) (expires_at c) \<longrightarrow>
            (\<exists>rest. new_events w w' =
               Get url (params_or_empty ps) (bearer L (access_token c)) # rest))"
proof -
  let ?p = "Post token_url (basic_credentials c)"
  let ?P = "params_or_empty ps"
  let ?valid = "truthy (access_token c) \<and> \<not> reached (clock w 0) (expires_at c)"
  from get_cases [OF assms] obtain i g j h a1 a2 where
    b: "i \<le> 1" "g \<le> 1" "j \<le> 2" "h \<le> 1"
    and t: "trace w' = trace w @ replicate i ?p @ replicate g (Get url ?P a1)
              @ replicate j ?p @ replicate h (Get url ?P a2)"
    and v: "?valid \<longrightarrow> i = 0 \<and> a1 = bearer L (access_token c)"
    and nv: "\<not> truthy (access_token c) \<or> reached (clock w 0) (expires_at c) \<longrightarrow> i = 1"
    and tk: "\<forall>t. fst (get_token L c w) = Inr t \<longrightarrow> g = 1 \<and> a1 = bearer L t"
    and g0: "g = 0 \<longrightarrow> j = 0 \<and> h = 0
              \<and> (\<exists>e. fst (get_token L c w) = Inl e \<and> r = Inl e)"
    by (elim exE conjE) (rule that; assumption)
  note ev = new_events_append [OF t]
  have A: "takeWhile is_post (new_events w w') = [?p]" if "i = 1"
  proof (cases "g = 0")
    case True
    with g0 ev that show ?thesis by simp
  next
    case False
    with b have "g = 1" by simp
    with ev that show ?thesis by simp
  qed
  have B: "\<exists>rest. new_events w w' = ?p # Get url ?P (bearer L t) # rest"
    if "i = 1" and "fst (get_token L c w) = Inr t" for t
    using that tk ev by simp
  have C: "\<exists>rest. new_events w w' = Get url ?P (bearer L (access_token c)) # rest"
    if ok: "?valid"
  proof -
    from ok assms(1) have "get_token L c w =
        (Inr (access_token c), c, w\<lparr>clock := (\<lambda>n. clock w (Suc n))\<rparr>)"
      by (auto simp: get_token_def time_time_def assert_token_def)
    with tk have "g = 1" by simp
    with ev v ok show ?thesis by simp
  qed
  from A B C nv show ?thesis by blast
qed

theorem get_refreshes_expired_token_witness:
  "takeWhile is_post (new_events demo_world
      (snd (snd (get demo_lib (demo_client\<lparr>expires_at := Secs 100\<rparr>) demo_world demo_url None))))
     = [Post token_url ''id:secret'']
   \<and> (\<exists>rest. new_events demo_world (snd (snd (get demo_lib demo_client demo_world demo_url None)))
         = Get demo_url [] ''Bearer old'' # rest)"
proof -
  let ?c = "demo_client\<lparr>expires_at := Secs 100\<rparr>"
  let ?X = "get demo_lib ?c demo_world demo_url None"
  let ?Y = "get demo_lib demo_client demo_world demo_url None"
  have a1: "static_token ?c = None" by (simp add: demo_client_def static_token_def)
  have a2: "?X = (fst ?X, fst (snd ?X), snd (snd ?X))" by simp
  have a3: "\<not> truthy (access_token ?c) \<or> reached (clock demo_world 0) (expires_at ?c)"
    by (simp add: demo_client_def demo_world_def)
  have a4: "basic_credentials ?c = ''id:secret''"
    by (simp add: demo_client_def basic_credentials_def fmt_opt_def)
  have b1: "static_token demo_client = None" by (simp add: demo_client_def static_token_def)
  have b2: "?Y = (fst ?Y, fst (snd ?Y), snd (snd ?Y))" by simp
  have b3: "truthy (access_token demo_client)
      \<and> \<not> reached (clock demo_world 0) (expires_at demo_client)"
    by (simp add: demo_client_def demo_world_def)
  have b4: "bearer demo_lib (access_token demo_client) = ''Bearer old''"
    by (simp add: demo_client_def bearer_def)
  from get_refreshes_expired_token [OF a1 a2] a3 a4
    get_refreshes_expired_token [OF b1 b2] b3 b4
  show ?thesis by (simp add: params_or_empty_def)
qed

text \<open>
  Claim C6. For a client with a static token, \<open>get\<close> answered with status 401 issues that
  one GET and no other call, leaves the client unchanged, and raises \<^verbatim>\<open>SpotifyAPIError\<close>
  with the message of the generic branch, \<^verbatim>\<open>Spotify API error 401: \<close> followed by the
  detail extracted from the answer.
\<close>

theorem static_401_not_retried:
  assumes "static_token c = Some s" and "get_script w 0 = Reply resp"
    and "status_code resp = 401"
  shows "get L c w url ps =
     (Inl (SpotifyAPIError (''Spotify API error 401: '' @ fmt L (error_detail resp))),
      c,
      w\<lparr>get_script := (\<lambda>n. get_script w (Suc n)),
        trace := trace w @ [Get url (params_or_empty ps) (''Bearer '' @ s)]\<rparr>)"
proof -
  have "str_int 401 = ''401''" by code_simp
  with assms(2,3) have "finish L resp =
      Inl (SpotifyAPIError (''Spotify API error 401: '' @ fmt L (error_detail resp)))"
    by (simp add: finish_def raise_for_status_def extract_error_message_def)
  with assms(2) show ?thesis by (simp add: get_static [OF assms(1)])
qed

theorem static_401_not_retried_witness:
  "static_token demo_static = Some ''fixed''
   \<and> fst (get demo_lib demo_static (demo_world\<lparr>get_script := (\<lambda>n. Reply demo_401)\<rparr>) demo_url None)
       = Inl (SpotifyAPIError ''Spotify API error 401: expired'')
   \<and> trace (snd (snd (get demo_lib demo_static (demo_world\<lparr>get_script := (\<lambda>n. Reply demo_401)\<rparr>)
                        demo_url None)))
       = [Get demo_url [] ''Bearer fixed'']"
proof -
  let ?w = "demo_world\<lparr>get_script := (\<lambda>n. Reply demo_401)\<rparr>"
  have h1: "static_token demo_static = Some ''fixed''"
    by (simp add: demo_static_def static_token_def)
  have h2: "get_script ?w 0 = Reply demo_401" by simp
  have h3: "status_code demo_401 = 401" by (simp add: demo_401_def)
  have d: "fmt demo_lib (error_detail demo_401) = ''expired''"
    by (simp add: error_detail_def demo_401_def strip_def is_space_def)
  have t: "trace ?w = []" by (simp add: demo_world_def)
  from static_401_not_retried [OF h1 h2 h3, of demo_lib demo_url None] h1 d t
  show ?thesis by (simp add: params_or_empty_def)
qed

text \<open>
  Claim C7. For an answer with status 404 whose body parses to the object that maps
  \<^verbatim>\<open>error\<close> to an object mapping \<^verbatim>\<open>message\<close> to \<^verbatim>\<open>invalid id\<close>, the extracted message
  is the 404 text around \<^verbatim>\<open>invalid id\<close>, ending in the guidance on supplied IDs.
\<close>

theorem extract_error_message_404:
  assumes "status_code resp = 404"
    and "json_body resp = Some (JObj [(''error'', JObj [(''message'', JStr ''invalid id'')])])"
  shows "extract_error_message L resp =
     ''Spotify API returned 404 Not Found: '' @ ''invalid id'' @ ''. ''
     @ ''This usually means one of the supplied IDs is invalid or unavailable in the current market.''"
  using assms by (simp add: extract_error_message_def error_detail_def)

theorem extract_error_message_404_witness:
  "extract_error_message demo_lib
     \<lparr>status_code = 404, resp_text = ''ignored'',
      json_body = Some (JObj [(''error'', JObj [(''message'', JStr ''invalid id'')])])\<rparr>
   = ''Spotify API returned 404 Not Found: invalid id. This usually means one of the supplied IDs is invalid or unavailable in the current market.''"
  using extract_error_message_404 [of "\<lparr>status_code = 404, resp_text = ''ignored'',
      json_body = Some (JObj [(''error'', JObj [(''message'', JStr ''invalid id'')])])\<rparr>" demo_lib]
  by simp







end
